theory Spec2Isabelle
  imports Main "HOL-Library.Sublist"
begin

section \<open>JavaScript strings\<close>

text \<open>
  A JavaScript string is a sequence of UTF-16 code units. The model uses \<^typ>\<open>string\<close>;
  a \<^typ>\<open>char\<close> stands for a code unit below 256 (the Latin-1 range), so that
  \<open>CHR 0xA0\<close> is the no-break space.
\<close>

definition newline :: char where
  "newline = CHR 0x0A"

text \<open>Decimal rendering of a non-negative integer, as a template literal prints a number.\<close>

fun showNat :: "nat \<Rightarrow> string" where
  "showNat n = (if n < 10 then [''0123456789'' ! n]
                else showNat (n div 10) @ [''0123456789'' ! (n mod 10)])"

declare showNat.simps [simp del]

text \<open>
  \<open>String.prototype.toLowerCase\<close> on the Latin-1 range: \<open>A\<close>..\<open>Z\<close> and the
  accented capitals \<open>0xC0\<close>..\<open>0xDE\<close> (without the multiplication sign \<open>0xD7\<close>)
  move up by 32, every other code unit stays.
\<close>

definition toLowerChar :: "char \<Rightarrow> char" where
  "toLowerChar c =
     (let n = (of_char c :: nat)
      in if (65 \<le> n \<and> n \<le> 90) \<or> (192 \<le> n \<and> n \<le> 222 \<and> n \<noteq> 215)
         then char_of (n + 32) else c)"

definition toLowerCase :: "string \<Rightarrow> string" where
  "toLowerCase s = map toLowerChar s"

text \<open>\<open>s.startsWith(p)\<close> and \<open>s.includes(p)\<close>.\<close>

fun startsWith :: "string \<Rightarrow> string \<Rightarrow> bool" where
  "startsWith s [] = True"
| "startsWith [] (p # ps) = False"
| "startsWith (c # cs) (p # ps) = (c = p \<and> startsWith cs ps)"

fun includesStr :: "string \<Rightarrow> string \<Rightarrow> bool" where
  "includesStr [] p = (p = [])"
| "includesStr (c # cs) p = (startsWith (c # cs) p \<or> includesStr cs p)"

text \<open>
  \<open>String.prototype.trim\<close> strips white space and line terminators from both ends;
  below 256 these are TAB, LF, VT, FF, CR, SPACE and the no-break space.
\<close>

definition isWhiteSpace :: "char \<Rightarrow> bool" where
  "isWhiteSpace c \<longleftrightarrow>
     c \<in> {CHR 0x09, CHR 0x0A, CHR 0x0B, CHR 0x0C, CHR 0x0D, CHR 0x20, CHR 0xA0}"

definition trim :: "string \<Rightarrow> string" where
  "trim s = rev (dropWhile isWhiteSpace (rev (dropWhile isWhiteSpace s)))"

section \<open>JavaScript values and errors\<close>

text \<open>
  The values a parsed JSON body is made of, and \<open>undefined\<close>, which reading a missing
  property yields. A number is represented by the text JavaScript prints for it, which is
  all the program can observe of it: \<open>0\<close> and \<open>-0\<close> both print as \<open>0\<close> and are the only
  numbers of a parsed body that count as false. An object is the list of its own
  properties, each name once.
\<close>

datatype jsval =
    JUndefined
  | JNull
  | JBool bool
  | JNum string
  | JStr string
  | JArr "jsval list"
  | JObj "(string \<times> jsval) list"

text \<open>An \<open>Error\<close> object: its \<open>name\<close> and its \<open>message\<close>.\<close>

datatype jsError = JsError (name: string) (message: string)

abbreviation Error :: "string \<Rightarrow> jsError" where
  "Error m \<equiv> JsError ''Error'' m"

abbreviation TypeError :: "string \<Rightarrow> jsError" where
  "TypeError m \<equiv> JsError ''TypeError'' m"

text \<open>\<open>String(err)\<close>, that is \<open>Error.prototype.toString\<close>.\<close>

definition errorToString :: "jsError \<Rightarrow> string" where
  "errorToString err =
     (if name err = [] then message err
      else if message err = [] then name err
      else name err @ '': '' @ message err)"

text \<open>Truthiness, as \<open>!v\<close> and \<open>||\<close> test it.\<close>

fun truthy :: "jsval \<Rightarrow> bool" where
  "truthy JUndefined = False"
| "truthy JNull = False"
| "truthy (JBool b) = b"
| "truthy (JNum n) = (n \<noteq> ''0'')"
| "truthy (JStr s) = (s \<noteq> [])"
| "truthy (JArr xs) = True"
| "truthy (JObj kvs) = True"

text \<open>
  Reading a property. \<open>None\<close> stands for the \<open>TypeError\<close> that reading from
  \<open>undefined\<close> or \<open>null\<close> raises. \<open>getProp\<close> is for the names the program reads
  (\<open>candidates\<close>, \<open>content\<close>, \<open>parts\<close>, \<open>text\<close>), none of which is a built-in property
  of a string, an array, a number or a boolean; \<open>getIndex\<close> is \<open>v[i]\<close>.
\<close>

fun getProp :: "jsval \<Rightarrow> string \<Rightarrow> jsval option" where
  "getProp JUndefined k = None"
| "getProp JNull k = None"
| "getProp (JObj kvs) k = (case map_of kvs k of None \<Rightarrow> Some JUndefined | Some v \<Rightarrow> Some v)"
| "getProp v k = Some JUndefined"

fun getIndex :: "jsval \<Rightarrow> nat \<Rightarrow> jsval option" where
  "getIndex JUndefined i = None"
| "getIndex JNull i = None"
| "getIndex (JObj kvs) i =
     (case map_of kvs (showNat i) of None \<Rightarrow> Some JUndefined | Some v \<Rightarrow> Some v)"
| "getIndex (JArr xs) i = Some (if i < length xs then xs ! i else JUndefined)"
| "getIndex (JStr s) i = Some (if i < length s then JStr [s ! i] else JUndefined)"
| "getIndex v i = Some JUndefined"

section \<open>The browser and the page\<close>

text \<open>
  One network call: the URL and the \<open>text\<close> of the only part of the request body. The
  method, the header and the generation parameters are the same constants in every call.
\<close>

record request =
  url :: string
  body_text :: string

text \<open>
  A response: its status, its status text and what \<open>response.json()\<close> settles to
  (\<open>Inl\<close> when the promise rejects). \<open>response.ok\<close> is defined by the Fetch standard
  as the status lying in 200..299.
\<close>

datatype response = Response (status: nat) (statusText: string) (json: "jsError + jsval")

definition ok :: "response \<Rightarrow> bool" where
  "ok r \<longleftrightarrow> 200 \<le> status r \<and> status r \<le> 299"

datatype fetched = Rejected jsError | Resolved response

text \<open>
  What the program cannot decide: how the network answers the call made after \<open>n\<close>
  earlier calls, the message the engine puts into the \<open>TypeError\<close> raised when
  property \<open>k\<close> is read from \<open>undefined\<close> or \<open>null\<close>, and the message of the
  \<open>TypeError\<close> raised when an object cannot be converted to a string.
\<close>

record env =
  fetch :: "nat \<Rightarrow> request \<Rightarrow> fetched"
  typeErrorMessage :: "jsval \<Rightarrow> string \<Rightarrow> string"
  conversionErrorMessage :: string

datatype consoleEntry = Warn string string | ConsoleError string jsError

text \<open>A child appended to the chat container: its class and the markup assigned to it.\<close>

record messageDiv =
  className :: string
  innerHTML :: string

text \<open>
  The state the script acts on: the widgets it reads and writes, the calls it has sent
  and what it has written to the console.
\<close>

record world =
  userInput_value :: string
  userInput_focus :: nat
  sendBtn_disabled :: bool
  loadingIndicator_active :: bool
  errorMessage_textContent :: string
  errorMessage_active :: bool
  chatContainer :: "messageDiv list"
  chatContainer_scrolls :: nat
  calls :: "request list"
  console :: "consoleEntry list"

section \<open>Configuration\<close>

text \<open>
  The script's global constants. The key and the list of models are fields of a
  configuration, so that a statement holds for every key and every list;
  \<open>defaultModels\<close> is the list the script ships with.
\<close>

record config =
  GEMINI_API_KEY :: string
  MODELS_TO_TRY :: "string list"

definition defaultModels :: "string list" where
  "defaultModels =
     [''gemini-2.5-flash'', ''gemini-1.5-flash-latest'', ''gemini-2.0-flash'',
      ''gemini-1.5-flash'', ''gemini-pro'']"

definition SYSTEM_PROMPT :: string where
  "SYSTEM_PROMPT =
     ''You are a personal AI teacher and guide. '' @ [newline] @
     ''Your role is to help students understand any concept they want to learn.'' @ [newline] @
     [newline] @
     ''Guidelines:'' @ [newline] @
     ''1. Explain step by step - break down complex topics into simple, digestible parts'' @ [newline] @
     ''2. Use simple language - avoid jargon, use everyday language whenever possible'' @ [newline] @
     ''3. Provide real-world examples - make abstract concepts concrete with practical examples'' @ [newline] @
     ''4. Keep explanations concise - but thorough enough to be understood'' @ [newline] @
     ''5. End with one follow-up question - this helps students think deeper and guides next steps'' @ [newline] @
     [newline] @
     ''Format your responses clearly with:'' @ [newline] @
     ''- Brief introduction to the topic'' @ [newline] @
     ''- Step-by-step explanation (numbered or bulleted)'' @ [newline] @
     ''- Real-world example(s)'' @ [newline] @
     ''- One follow-up question at the end''"

section \<open>getGeminiResponse\<close>

text \<open>How a piece of the loop body ends: it goes on to the next model with \<open>lastError\<close>
  set, it returns from the function, or it throws.\<close>

datatype completion = Continue string | Return jsval | Throw jsError

definition endpoint :: "string \<Rightarrow> string \<Rightarrow> string" where
  "endpoint model key =
     ''https://generativelanguage.googleapis.com/v1/models/'' @ model @
     '':generateContent?key='' @ key"

text \<open>The call sent for one model (lines 147 to 156).\<close>

definition requestTo :: "string \<Rightarrow> string \<Rightarrow> string \<Rightarrow> request" where
  "requestTo key prompt model = \<lparr>url = endpoint model key, body_text = prompt\<rparr>"

text \<open>Line 129: the text sent, the same for every model.\<close>

definition requestText :: "string \<Rightarrow> string" where
  "requestText userMessage =
     SYSTEM_PROMPT @ [newline, newline] @ ''User question: '' @ userMessage"

definition member :: "env \<Rightarrow> jsval \<Rightarrow> string \<Rightarrow> jsError + jsval" where
  "member env v k =
     (case getProp v k of
        None \<Rightarrow> Inl (TypeError (typeErrorMessage env v k))
      | Some x \<Rightarrow> Inr x)"

definition element :: "env \<Rightarrow> jsval \<Rightarrow> nat \<Rightarrow> jsError + jsval" where
  "element env v i =
     (case getIndex v i of
        None \<Rightarrow> Inl (TypeError (typeErrorMessage env v (showNat i)))
      | Some x \<Rightarrow> Inr x)"

definition unexpectedFormat :: "string \<Rightarrow> string" where
  "unexpectedFormat model = ''Unexpected API response format from model '' @ model"

text \<open>Lines 177 to 183: the guard on the parsed body and the read of the answer.\<close>

definition readAnswer :: "env \<Rightarrow> string \<Rightarrow> jsval \<Rightarrow> completion" where
  "readAnswer env model data =
     (case member env data ''candidates'' of
        Inl err \<Rightarrow> Throw err
      | Inr candidates \<Rightarrow>
          if \<not> truthy candidates then Continue (unexpectedFormat model)
          else (case element env candidates 0 of
            Inl err \<Rightarrow> Throw err
          | Inr candidate \<Rightarrow>
              if \<not> truthy candidate then Continue (unexpectedFormat model)
              else (case member env candidate ''content'' of
                Inl err \<Rightarrow> Throw err
              | Inr content \<Rightarrow>
                  if \<not> truthy content then Continue (unexpectedFormat model)
                  else (case member env content ''parts'' of
                    Inl err \<Rightarrow> Throw err
                  | Inr parts \<Rightarrow>
                      (case element env parts 0 of
                         Inl err \<Rightarrow> Throw err
                       | Inr part \<Rightarrow>
                           (case member env part ''text'' of
                              Inl err \<Rightarrow> Throw err
                            | Inr aiText \<Rightarrow> Return aiText))))))"

text \<open>Lines 158 to 183: what the \<open>try\<close> block does with a response.\<close>

definition onResponse :: "env \<Rightarrow> string \<Rightarrow> response \<Rightarrow> completion" where
  "onResponse env model response =
     (if \<not> ok response then
        (if status response = 401 then
           Throw (Error ''Invalid or missing API key. Check your Gemini API key.'')
         else if status response = 404 then
           Continue (''Model '' @ model @ '' not found (404).'')
         else if status response = 429 then
           Throw (Error ''Rate limit exceeded. Please wait a moment and try again.'')
         else if status response = 500 then
           Throw (Error ''Gemini API server error. Please try again later.'')
         else
           Continue (''API Error for model '' @ model @ '': '' @ showNat (status response)
                     @ '' '' @ statusText response))
      else (case json response of
              Inl err \<Rightarrow> Throw err
            | Inr data \<Rightarrow> readAnswer env model data))"

text \<open>Lines 147 to 183: the \<open>try\<close> block, which sends one call.\<close>

definition tryBlock :: "env \<Rightarrow> string \<Rightarrow> string \<Rightarrow> string \<Rightarrow> world \<Rightarrow> completion \<times> world" where
  "tryBlock env key prompt model w =
     (let w' = w\<lparr>calls := calls w @ [requestTo key prompt model]\<rparr>
      in case fetch env (length (calls w)) (requestTo key prompt model) of
           Rejected err \<Rightarrow> (Throw err, w')
         | Resolved response \<Rightarrow> (onResponse env model response, w'))"

text \<open>Line 186: \<open>err.message || String(err)\<close>.\<close>

definition reasonOf :: "jsError \<Rightarrow> string" where
  "reasonOf err = (if message err \<noteq> [] then message err else errorToString err)"

text \<open>Line 188: the test that decides whether a caught error stops the loop.\<close>

definition stopsLoop :: "string \<Rightarrow> bool" where
  "stopsLoop lastError \<longleftrightarrow>
     includesStr (toLowerCase lastError) ''invalid'' \<or>
     includesStr (toLowerCase lastError) ''rate limit''"

text \<open>Lines 149 to 193: one iteration, the \<open>try\<close> block under its \<open>catch\<close>.\<close>

definition iteration :: "env \<Rightarrow> string \<Rightarrow> string \<Rightarrow> string \<Rightarrow> world \<Rightarrow> completion \<times> world" where
  "iteration env key prompt model w =
     (case tryBlock env key prompt model w of
        (Throw err, w') \<Rightarrow>
          (let lastError = reasonOf err
           in if stopsLoop lastError then (Throw (Error lastError), w')
              else (Continue lastError,
                    w'\<lparr>console := console w' @ [Warn (''Model '' @ model @ '' failed:'') lastError]\<rparr>))
      | (c, w') \<Rightarrow> (c, w'))"

text \<open>
  Lines 146 to 194: the loop over the models still to try. \<open>Inl lastError\<close> is the loop
  running off its end, \<open>Inr\<close> a return or a throw from inside it.
\<close>

fun forModels ::
  "env \<Rightarrow> string \<Rightarrow> string \<Rightarrow> string list \<Rightarrow> string option \<Rightarrow> world
   \<Rightarrow> (string option + (jsError + jsval)) \<times> world" where
  "forModels env key prompt [] lastError w = (Inl lastError, w)"
| "forModels env key prompt (model # rest) lastError w =
     (case iteration env key prompt model w of
        (Continue e, w') \<Rightarrow> forModels env key prompt rest (Some e) w'
      | (Return v, w') \<Rightarrow> (Inr (Inr v), w')
      | (Throw err, w') \<Rightarrow> (Inr (Inl err), w'))"

text \<open>Line 197: \<open>lastError || 'All models failed'\<close>.\<close>

definition orAllFailed :: "string option \<Rightarrow> string" where
  "orAllFailed lastError =
     (case lastError of
        None \<Rightarrow> ''All models failed''
      | Some e \<Rightarrow> if e = [] then ''All models failed'' else e)"

text \<open>
  Line 197, reached when the loop runs off its end. In the result \<open>Inr\<close> is the text
  the promise resolves to and \<open>Inl\<close> the error it rejects with.
\<close>

fun afterLoop ::
  "(string option + (jsError + jsval)) \<times> world \<Rightarrow> (jsError + jsval) \<times> world" where
  "afterLoop (Inl lastError, w) = (Inl (Error (orAllFailed lastError)), w)"
| "afterLoop (Inr r, w) = (r, w)"

text \<open>The function. Its outer \<open>catch\<close> rethrows what it catches.\<close>

definition getGeminiResponse ::
  "env \<Rightarrow> config \<Rightarrow> string \<Rightarrow> world \<Rightarrow> (jsError + jsval) \<times> world" where
  "getGeminiResponse env cfg userMessage w =
     afterLoop (forModels env (GEMINI_API_KEY cfg) (requestText userMessage)
                  (MODELS_TO_TRY cfg) None w)"

section \<open>The conversation view\<close>

definition showLoading :: "world \<Rightarrow> world" where
  "showLoading w = w\<lparr>loadingIndicator_active := True\<rparr>"

definition hideLoading :: "world \<Rightarrow> world" where
  "hideLoading w = w\<lparr>loadingIndicator_active := False\<rparr>"

definition showError :: "string \<Rightarrow> world \<Rightarrow> world" where
  "showError msg w = w\<lparr>errorMessage_textContent := msg, errorMessage_active := True\<rparr>"

definition clearError :: "world \<Rightarrow> world" where
  "clearError w = w\<lparr>errorMessage_textContent := [], errorMessage_active := False\<rparr>"

definition scrollToBottom :: "world \<Rightarrow> world" where
  "scrollToBottom w = w\<lparr>chatContainer_scrolls := Suc (chatContainer_scrolls w)\<rparr>"

text \<open>\<open>Array.prototype.join\<close> with a comma.\<close>

fun joinComma :: "string list \<Rightarrow> string" where
  "joinComma [] = []"
| "joinComma [s] = s"
| "joinComma (s # t # ts) = s @ '','' @ joinComma (t # ts)"

text \<open>
  The string a value converts to (\<open>ToString\<close>), and \<open>Inl\<close> where the conversion throws.
  An object without an own property \<open>toString\<close> converts by \<open>Object.prototype.toString\<close>.
  An own \<open>toString\<close> of a parsed object is never a function, and \<open>valueOf\<close> gives no
  primitive value for an object, so such an object cannot be converted. An array joins the
  strings of its elements, with nothing for \<open>undefined\<close> and \<open>null\<close>.
\<close>

fun joinAll :: "(jsError + string) list \<Rightarrow> jsError + string list" where
  "joinAll [] = Inr []"
| "joinAll (Inl err # rs) = Inl err"
| "joinAll (Inr s # rs) = (case joinAll rs of Inl err \<Rightarrow> Inl err | Inr ss \<Rightarrow> Inr (s # ss))"

fun toStringJs :: "env \<Rightarrow> jsval \<Rightarrow> jsError + string" where
  "toStringJs env JUndefined = Inr ''undefined''"
| "toStringJs env JNull = Inr ''null''"
| "toStringJs env (JBool b) = Inr (if b then ''true'' else ''false'')"
| "toStringJs env (JNum n) = Inr n"
| "toStringJs env (JStr s) = Inr s"
| "toStringJs env (JArr xs) =
     (case joinAll (map (\<lambda>x. if x = JUndefined \<or> x = JNull then Inr [] else toStringJs env x) xs) of
        Inl err \<Rightarrow> Inl err
      | Inr ss \<Rightarrow> Inr (joinComma ss))"
| "toStringJs env (JObj kvs) =
     (if map_of kvs ''toString'' = None then Inr ''[object Object]''
      else Inl (TypeError (conversionErrorMessage env)))"

text \<open>
  Assigning \<open>v\<close> to \<open>textContent\<close>: the attribute is a nullable string, so
  \<open>undefined\<close> and \<open>null\<close> give the empty text and any other value its string.
\<close>

definition textContentOf :: "env \<Rightarrow> jsval \<Rightarrow> jsError + string" where
  "textContentOf env v = (if v = JUndefined \<or> v = JNull then Inr [] else toStringJs env v)"

text \<open>
  Reading \<open>innerHTML\<close> of an element that holds one text node serialises the text:
  the HTML standard replaces \<open>&\<close>, the no-break space, \<open><\<close> and \<open>>\<close> by
  their character references and leaves every other character.
\<close>

definition escapeChar :: "char \<Rightarrow> string" where
  "escapeChar c =
     (if c = CHR ''&'' then ''&amp;''
      else if c = CHR 0xA0 then ''&nbsp;''
      else if c = CHR ''<'' then ''&lt;''
      else if c = CHR ''>'' then ''&gt;''
      else [c])"

definition escapeText :: "string \<Rightarrow> string" where
  "escapeText s = concat (map escapeChar s)"

text \<open>\<open>escapeHtml\<close>: the argument is assigned to \<open>textContent\<close> and \<open>innerHTML\<close> read back.\<close>

definition escapeHtml :: "env \<Rightarrow> jsval \<Rightarrow> jsError + string" where
  "escapeHtml env v =
     (case textContentOf env v of
        Inl err \<Rightarrow> Inl err
      | Inr s \<Rightarrow> Inr (escapeText s))"

text \<open>\<open>s.replace(/\n/g, '<br>')\<close>.\<close>

definition replaceNewlines :: "string \<Rightarrow> string" where
  "replaceNewlines s = concat (map (\<lambda>c. if c = newline then ''<br>'' else [c]) s)"

text \<open>
  \<open>displayUserMessage\<close> is called with the trimmed input, a string, on which
  \<open>escapeHtml\<close> is \<open>escapeText\<close> and cannot throw.
\<close>

definition displayUserMessage :: "string \<Rightarrow> world \<Rightarrow> world" where
  "displayUserMessage msg w =
     w\<lparr>chatContainer := chatContainer w @
         [\<lparr>className = ''message user-message'',
           innerHTML = ''<p>'' @ escapeText msg @ ''</p>''\<rparr>]\<rparr>"

text \<open>
  \<open>displayAIMessage\<close> is called with whatever the response held as \<open>text\<close>. When
  \<open>escapeHtml\<close> throws, nothing has been appended yet.
\<close>

definition displayAIMessage :: "env \<Rightarrow> jsval \<Rightarrow> world \<Rightarrow> jsError + world" where
  "displayAIMessage env msg w =
     (case escapeHtml env msg of
        Inl err \<Rightarrow> Inl err
      | Inr escaped \<Rightarrow>
          (let formattedMessage = replaceNewlines escaped
           in Inr (w\<lparr>chatContainer := chatContainer w @
                    [\<lparr>className = ''message ai-message'',
                      innerHTML = ''<p>'' @ formattedMessage @ ''</p>''\<rparr>]\<rparr>)))"

text \<open>Lines 78 to 89: what a valid submission does before the call.\<close>

definition beforeCall :: "string \<Rightarrow> world \<Rightarrow> world" where
  "beforeCall msg w =
     showLoading
       ((displayUserMessage msg (clearError w))
          \<lparr>userInput_value := [], sendBtn_disabled := True\<rparr>)"

text \<open>Lines 104 to 108: the \<open>catch\<close> of \<open>sendMessage\<close>.\<close>

definition onError :: "jsError \<Rightarrow> world \<Rightarrow> world" where
  "onError err w =
     (let w' = showError (''Error: '' @ message err) (hideLoading w)
      in w'\<lparr>console := console w' @ [ConsoleError ''Full error:'' err]\<rparr>)"

text \<open>
  Lines 91 to 108: the \<open>try\<close> block of \<open>sendMessage\<close> under its \<open>catch\<close>. The block
  throws when the call rejects, and when \<open>displayAIMessage\<close> throws after the loading
  indicator was hidden.
\<close>

definition exchange :: "env \<Rightarrow> config \<Rightarrow> string \<Rightarrow> world \<Rightarrow> world" where
  "exchange env cfg msg w =
     (case getGeminiResponse env cfg msg w of
        (Inr aiResponse, w') \<Rightarrow>
          (case displayAIMessage env aiResponse (hideLoading w') of
             Inr w'' \<Rightarrow> scrollToBottom w''
           | Inl err \<Rightarrow> onError err (hideLoading w'))
      | (Inl err, w') \<Rightarrow> onError err w')"

definition sendMessage :: "env \<Rightarrow> config \<Rightarrow> world \<Rightarrow> world" where
  "sendMessage env cfg w =
     (let msg = trim (userInput_value w)
      in if msg = [] then showError ''Please enter a message'' w
         else if GEMINI_API_KEY cfg = ''YOUR_API_KEY_HERE''
         then showError ''Please add your Gemini API key to the script'' w
         else
           (let w' = exchange env cfg msg (beforeCall msg w)
            in w'\<lparr>sendBtn_disabled := False, userInput_focus := Suc (userInput_focus w')\<rparr>))"

section \<open>The expected response and example environments\<close>

text \<open>
  The answer of a body of the expected shape
  \<open>{candidates: [{content: {parts: [{text: string}]}}]}\<close>, and \<open>None\<close> for any other
  body. Further members and further array entries are allowed.
\<close>

definition wellFormedText :: "jsval \<Rightarrow> string option" where
  "wellFormedText data =
     (case data of
        JObj members \<Rightarrow>
          (case map_of members ''candidates'' of
             Some (JArr (JObj candidate # _)) \<Rightarrow>
               (case map_of candidate ''content'' of
                  Some (JObj content) \<Rightarrow>
                    (case map_of content ''parts'' of
                       Some (JArr (JObj part # _)) \<Rightarrow>
                         (case map_of part ''text'' of
                            Some (JStr t) \<Rightarrow> Some t
                          | _ \<Rightarrow> None)
                     | _ \<Rightarrow> None)
                | _ \<Rightarrow> None)
           | _ \<Rightarrow> None)
      | _ \<Rightarrow> None)"

text \<open>Decoding the four character references that \<open>escapeChar\<close> writes.\<close>

fun unescapeHtml :: "string \<Rightarrow> string" where
  "unescapeHtml [] = []"
| "unescapeHtml (c # cs) =
     (if c = CHR ''&'' \<and> startsWith cs ''amp;'' then CHR ''&'' # unescapeHtml (drop 4 cs)
      else if c = CHR ''&'' \<and> startsWith cs ''nbsp;'' then CHR 0xA0 # unescapeHtml (drop 5 cs)
      else if c = CHR ''&'' \<and> startsWith cs ''lt;'' then CHR ''<'' # unescapeHtml (drop 3 cs)
      else if c = CHR ''&'' \<and> startsWith cs ''gt;'' then CHR ''>'' # unescapeHtml (drop 3 cs)
      else c # unescapeHtml cs)"

text \<open>
  The messages of V8: for reading a property of \<open>undefined\<close> or \<open>null\<close>, and for an
  object that cannot be converted.
\<close>

definition v8TypeErrorMessage :: "jsval \<Rightarrow> string \<Rightarrow> string" where
  "v8TypeErrorMessage v k =
     ''Cannot read properties of '' @ (if v = JNull then ''null'' else ''undefined'')
     @ '' (reading '' @ [CHR 0x27] @ k @ [CHR 0x27] @ '')''"

text \<open>A network that answers its \<open>n\<close>-th call with the \<open>n\<close>-th entry of a script, and
  fails to connect once the script is used up.\<close>

definition scripted :: "fetched list \<Rightarrow> env" where
  "scripted answers =
     \<lparr>fetch = (\<lambda>n req. if n < length answers then answers ! n
                       else Rejected (TypeError ''Failed to fetch'')),
      typeErrorMessage = v8TypeErrorMessage,
      conversionErrorMessage = ''Cannot convert object to primitive value''\<rparr>"

definition answering :: "string \<Rightarrow> jsval" where
  "answering t =
     JObj [(''candidates'',
            JArr [JObj [(''content'', JObj [(''parts'', JArr [JObj [(''text'', JStr t)]])])]])]"

definition withStatus :: "nat \<Rightarrow> string \<Rightarrow> fetched" where
  "withStatus s t = Resolved (Response s t (Inr (JObj [])))"

text \<open>A page just loaded, with \<open>input\<close> typed into the input field.\<close>

definition pageWith :: "string \<Rightarrow> world" where
  "pageWith input =
     \<lparr>userInput_value = input, userInput_focus = 1, sendBtn_disabled = False,
      loadingIndicator_active = False, errorMessage_textContent = [],
      errorMessage_active = False, chatContainer = [], chatContainer_scrolls = 0,
      calls = [], console = []\<rparr>"

definition configOf :: "string list \<Rightarrow> config" where
  "configOf ms = \<lparr>GEMINI_API_KEY = ''KEY'', MODELS_TO_TRY = ms\<rparr>"

section \<open>Facts about strings\<close>

lemma startsWith_prefix: "startsWith s p = prefix p s"
  by (induction s p rule: startsWith.induct) auto

lemma includesStr_sublist: "includesStr s p = sublist p s"
  by (induction s) (auto simp: startsWith_prefix sublist_Cons_right)

lemma stopsLoop_sublist:
  "stopsLoop s \<longleftrightarrow>
     sublist ''invalid'' (toLowerCase s) \<or> sublist ''rate limit'' (toLowerCase s)"
  by (simp add: stopsLoop_def includesStr_sublist)

lemma stopsLoop_invalid_key:
  "stopsLoop ''Invalid or missing API key. Check your Gemini API key.''"
  by code_simp

lemma stopsLoop_rate_limit:
  "stopsLoop ''Rate limit exceeded. Please wait a moment and try again.''"
  by code_simp

lemma not_stopsLoop_server_error:
  "\<not> stopsLoop ''Gemini API server error. Please try again later.''"
  by code_simp

section \<open>Facts about the loop\<close>

lemma tryBlock_world:
  "snd (tryBlock env key prompt model w) = w\<lparr>calls := calls w @ [requestTo key prompt model]\<rparr>"
  by (simp add: tryBlock_def Let_def split: fetched.split)

lemma iteration_calls:
  "calls (snd (iteration env key prompt model w)) = calls w @ [requestTo key prompt model]"
  using tryBlock_world [of env key prompt model w]
  by (cases "tryBlock env key prompt model w")
     (auto simp: iteration_def Let_def split: completion.split)

lemma forModels_append:
  "forModels env key prompt (pre @ post) lastError w =
     (case forModels env key prompt pre lastError w of
        (Inl lastError', w') \<Rightarrow> forModels env key prompt post lastError' w'
      | (Inr r, w') \<Rightarrow> (Inr r, w'))"
  by (induction pre arbitrary: lastError w)
     (auto split: prod.split completion.split sum.split)

lemma forModels_calls:
  "forModels env key prompt ms lastError w = (Inl lastError', w') \<Longrightarrow>
     calls w' = calls w @ map (requestTo key prompt) ms"
proof (induction ms arbitrary: lastError w)
  case Nil
  then show ?case by simp
next
  case (Cons m ms)
  obtain c w1 where it: "iteration env key prompt m w = (c, w1)"
    by (cases "iteration env key prompt m w")
  with Cons.prems obtain e where c: "c = Continue e"
    by (cases c) auto
  from it have "calls w1 = calls w @ [requestTo key prompt m]"
    using iteration_calls [of env key prompt m w] by simp
  moreover from Cons.prems it c have "forModels env key prompt ms (Some e) w1 = (Inl lastError', w')"
    by simp
  ultimately show ?case using Cons.IH by fastforce
qed

text \<open>The loop reaching a model after the models before it were all passed over.\<close>

lemma forModels_reach:
  assumes "forModels env key prompt pre lastError w = (Inl lastError1, w1)"
  shows "forModels env key prompt (pre @ m # post) lastError w =
           (case iteration env key prompt m w1 of
              (Continue e, w') \<Rightarrow> forModels env key prompt post (Some e) w'
            | (Return v, w') \<Rightarrow> (Inr (Inr v), w')
            | (Throw err, w') \<Rightarrow> (Inr (Inl err), w'))"
  using assms by (simp add: forModels_append)

lemma iteration_catch:
  assumes "tryBlock env key prompt m w = (Throw err, w')"
  shows "iteration env key prompt m w =
           (if stopsLoop (reasonOf err) then (Throw (Error (reasonOf err)), w')
            else (Continue (reasonOf err),
                  w'\<lparr>console := console w' @ [Warn (''Model '' @ m @ '' failed:'') (reasonOf err)]\<rparr>))"
  using assms by (simp add: iteration_def Let_def)

lemma iteration_no_throw:
  assumes "tryBlock env key prompt m w = (c, w')" and "\<forall>err. c \<noteq> Throw err"
  shows "iteration env key prompt m w = (c, w')"
  using assms by (cases c) (simp_all add: iteration_def)

lemma tryBlock_resolved:
  assumes "fetch env (length (calls w)) (requestTo key prompt m) = Resolved r"
  shows "tryBlock env key prompt m w =
           (onResponse env m r, w\<lparr>calls := calls w @ [requestTo key prompt m]\<rparr>)"
  using assms by (simp add: tryBlock_def)

lemma tryBlock_rejected:
  assumes "fetch env (length (calls w)) (requestTo key prompt m) = Rejected err"
  shows "tryBlock env key prompt m w =
           (Throw err, w\<lparr>calls := calls w @ [requestTo key prompt m]\<rparr>)"
  using assms by (simp add: tryBlock_def)

lemma onResponse_401:
  "status r = 401 \<Longrightarrow>
     onResponse env m r = Throw (Error ''Invalid or missing API key. Check your Gemini API key.'')"
  by (simp add: onResponse_def ok_def)

lemma onResponse_429:
  "status r = 429 \<Longrightarrow>
     onResponse env m r = Throw (Error ''Rate limit exceeded. Please wait a moment and try again.'')"
  by (simp add: onResponse_def ok_def)

lemma onResponse_404:
  "status r = 404 \<Longrightarrow> onResponse env m r = Continue (''Model '' @ m @ '' not found (404).'')"
  by (simp add: onResponse_def ok_def)

lemma onResponse_other:
  "\<not> ok r \<Longrightarrow> status r \<notin> {401, 404, 429, 500} \<Longrightarrow>
     onResponse env m r =
       Continue (''API Error for model '' @ m @ '': '' @ showNat (status r) @ '' '' @ statusText r)"
  by (simp add: onResponse_def)

lemma reasonOf_Error: "reasonOf (JsError n msg) = (if msg \<noteq> [] then msg else n)"
  by (simp add: reasonOf_def errorToString_def)

lemma iteration_status_401:
  assumes "fetch env (length (calls w)) (requestTo key prompt m) = Resolved r"
    and "status r = 401"
  shows "iteration env key prompt m w =
           (Throw (Error ''Invalid or missing API key. Check your Gemini API key.''),
            w\<lparr>calls := calls w @ [requestTo key prompt m]\<rparr>)"
  using stopsLoop_invalid_key
  by (simp add: iteration_catch [where err = "Error ''Invalid or missing API key. Check your Gemini API key.''"]
        tryBlock_resolved [OF assms(1)] onResponse_401 [OF assms(2)] reasonOf_Error)

lemma iteration_status_429:
  assumes "fetch env (length (calls w)) (requestTo key prompt m) = Resolved r"
    and "status r = 429"
  shows "iteration env key prompt m w =
           (Throw (Error ''Rate limit exceeded. Please wait a moment and try again.''),
            w\<lparr>calls := calls w @ [requestTo key prompt m]\<rparr>)"
  using stopsLoop_rate_limit
  by (simp add: iteration_catch [where err = "Error ''Rate limit exceeded. Please wait a moment and try again.''"]
        tryBlock_resolved [OF assms(1)] onResponse_429 [OF assms(2)] reasonOf_Error)

lemma iteration_status_404:
  assumes "fetch env (length (calls w)) (requestTo key prompt m) = Resolved r"
    and "status r = 404"
  shows "iteration env key prompt m w =
           (Continue (''Model '' @ m @ '' not found (404).''),
            w\<lparr>calls := calls w @ [requestTo key prompt m]\<rparr>)"
  by (simp add: iteration_def tryBlock_resolved [OF assms(1)] onResponse_404 [OF assms(2)])

section \<open>Statuses that stop the loop\<close>

text \<open>
  Claim C2. Let the loop reach a candidate \<open>m\<close> after passing over the candidates
  \<open>pre\<close> before it, whatever their number. If the call for \<open>m\<close> is answered with status
  401, \<open>getGeminiResponse\<close> rejects with the invalid-key reason; if it is answered with
  status 429, it rejects with the rate-limit reason. In both cases the calls sent are the
  ones for \<open>pre\<close> and the one for \<open>m\<close>: no candidate after \<open>m\<close> is tried.
\<close>

theorem status_401_429_stop:
  assumes "MODELS_TO_TRY cfg = pre @ m # post"
    and "forModels env (GEMINI_API_KEY cfg) (requestText userMessage) pre None w = (Inl lastError, w1)"
    and "fetch env (length (calls w1)) (requestTo (GEMINI_API_KEY cfg) (requestText userMessage) m)
           = Resolved r"
    and "status r = 401 \<or> status r = 429"
  shows "fst (getGeminiResponse env cfg userMessage w) =
           Inl (Error (if status r = 401
                       then ''Invalid or missing API key. Check your Gemini API key.''
                       else ''Rate limit exceeded. Please wait a moment and try again.''))
         \<and> calls (snd (getGeminiResponse env cfg userMessage w)) =
             calls w @ map (requestTo (GEMINI_API_KEY cfg) (requestText userMessage)) (pre @ [m])"
proof -
  let ?key = "GEMINI_API_KEY cfg" and ?p = "requestText userMessage"
  have c1: "calls w1 = calls w @ map (requestTo ?key ?p) pre"
    using assms(2) by (rule forModels_calls)
  note loop = forModels_reach [OF assms(2), of m post]
  from assms(4) show ?thesis
  proof
    assume s: "status r = 401"
    show ?thesis
      using loop c1 s iteration_status_401 [OF assms(3) s]
      by (simp add: getGeminiResponse_def assms(1))
  next
    assume s: "status r = 429"
    show ?thesis
      using loop c1 s iteration_status_429 [OF assms(3) s]
      by (simp add: getGeminiResponse_def assms(1))
  qed
qed

theorem status_401_429_stop_witness:
  "fst (getGeminiResponse (scripted [withStatus 404 ''Not Found'', withStatus 429 ''Too Many Requests''])
          (configOf [''a'', ''b'', ''c'']) ''What is gravity?'' (pageWith [])) =
     Inl (Error ''Rate limit exceeded. Please wait a moment and try again.'')
   \<and> length (calls (snd (getGeminiResponse
          (scripted [withStatus 404 ''Not Found'', withStatus 429 ''Too Many Requests''])
          (configOf [''a'', ''b'', ''c'']) ''What is gravity?'' (pageWith [])))) = 2"
proof -
  let ?env = "scripted [withStatus 404 ''Not Found'', withStatus 429 ''Too Many Requests'']"
  let ?cfg = "configOf [''a'', ''b'', ''c'']"
  let ?p = "requestText ''What is gravity?''"
  let ?w1 = "(pageWith [])\<lparr>calls := [requestTo ''KEY'' ?p ''a'']\<rparr>"
  let ?r = "Response 429 ''Too Many Requests'' (Inr (JObj []))"
  have h1: "MODELS_TO_TRY ?cfg = [''a''] @ ''b'' # [''c'']"
    by (simp add: configOf_def)
  have h2: "forModels ?env (GEMINI_API_KEY ?cfg) ?p [''a''] None (pageWith []) =
              (Inl (Some ''Model a not found (404).''), ?w1)"
    by (simp add: configOf_def scripted_def withStatus_def pageWith_def iteration_def
          tryBlock_def onResponse_def ok_def)
  have h3: "fetch ?env (length (calls ?w1)) (requestTo (GEMINI_API_KEY ?cfg) ?p ''b'') = Resolved ?r"
    by (simp add: scripted_def withStatus_def)
  have h4: "status ?r = 401 \<or> status ?r = 429"
    by simp
  show ?thesis
    using status_401_429_stop [OF h1 h2 h3 h4] by (simp add: pageWith_def)
qed

lemma readAnswer_wellFormed:
  assumes "wellFormedText data = Some t"
  shows "readAnswer env model data = Return (JStr t)"
  using assms
  by (auto simp: wellFormedText_def readAnswer_def member_def element_def showNat.simps
           split: jsval.splits option.splits list.splits)

lemma iteration_success:
  assumes "fetch env (length (calls w)) (requestTo key prompt m) = Resolved r"
    and "ok r" and "json r = Inr data" and "wellFormedText data = Some t"
  shows "iteration env key prompt m w =
           (Return (JStr t), w\<lparr>calls := calls w @ [requestTo key prompt m]\<rparr>)"
  using assms(2,3) readAnswer_wellFormed [OF assms(4)]
  by (simp add: iteration_def tryBlock_resolved [OF assms(1)] onResponse_def)

section \<open>Falling back to the next candidate\<close>

text \<open>
  Claim C3. Let the candidate list have at least two entries. If the call for the first
  candidate is answered with status 404 and the call for the second with a success status
  and a body of the expected shape carrying the text \<open>t\<close>, then \<open>getGeminiResponse\<close>
  resolves to \<open>t\<close>, and the calls it has sent are exactly these two.
\<close>

theorem second_candidate_answers:
  assumes "MODELS_TO_TRY cfg = m1 # m2 # rest"
    and "fetch env (length (calls w)) (requestTo (GEMINI_API_KEY cfg) (requestText userMessage) m1)
           = Resolved r1"
    and "status r1 = 404"
    and "fetch env (Suc (length (calls w))) (requestTo (GEMINI_API_KEY cfg) (requestText userMessage) m2)
           = Resolved r2"
    and "ok r2" and "json r2 = Inr data" and "wellFormedText data = Some t"
  shows "getGeminiResponse env cfg userMessage w =
           (Inr (JStr t),
            w\<lparr>calls := calls w @ [requestTo (GEMINI_API_KEY cfg) (requestText userMessage) m1,
                                   requestTo (GEMINI_API_KEY cfg) (requestText userMessage) m2]\<rparr>)"
proof -
  let ?key = "GEMINI_API_KEY cfg" and ?p = "requestText userMessage"
  let ?w1 = "w\<lparr>calls := calls w @ [requestTo ?key ?p m1]\<rparr>"
  have first: "iteration env ?key ?p m1 w = (Continue (''Model '' @ m1 @ '' not found (404).''), ?w1)"
    using assms(2,3) by (rule iteration_status_404)
  have "fetch env (length (calls ?w1)) (requestTo ?key ?p m2) = Resolved r2"
    using assms(4) by simp
  then have second: "iteration env ?key ?p m2 ?w1 =
                       (Return (JStr t), ?w1\<lparr>calls := calls ?w1 @ [requestTo ?key ?p m2]\<rparr>)"
    using assms(5,6,7) by (rule iteration_success)
  show ?thesis
    by (simp add: getGeminiResponse_def assms(1) first second)
qed

theorem second_candidate_answers_witness:
  "getGeminiResponse
     (scripted [withStatus 404 ''Not Found'', Resolved (Response 200 ''OK'' (Inr (answering ''Gravity is...'')))])
     (configOf [''a'', ''b'']) ''What is gravity?'' (pageWith []) =
   (Inr (JStr ''Gravity is...''),
    (pageWith [])\<lparr>calls := [requestTo ''KEY'' (requestText ''What is gravity?'') ''a'',
                             requestTo ''KEY'' (requestText ''What is gravity?'') ''b'']\<rparr>)"
proof -
  let ?r2 = "Response 200 ''OK'' (Inr (answering ''Gravity is...''))"
  let ?env = "scripted [withStatus 404 ''Not Found'', Resolved ?r2]"
  let ?cfg = "configOf [''a'', ''b'']"
  let ?p = "requestText ''What is gravity?''"
  let ?r1 = "Response 404 ''Not Found'' (Inr (JObj []))"
  have h1: "MODELS_TO_TRY ?cfg = ''a'' # ''b'' # []"
    by (simp add: configOf_def)
  have h2: "fetch ?env (length (calls (pageWith []))) (requestTo (GEMINI_API_KEY ?cfg) ?p ''a'') = Resolved ?r1"
    by (simp add: scripted_def withStatus_def pageWith_def)
  have h3: "status ?r1 = 404" by simp
  have h4: "fetch ?env (Suc (length (calls (pageWith [])))) (requestTo (GEMINI_API_KEY ?cfg) ?p ''b'') = Resolved ?r2"
    by (simp add: scripted_def pageWith_def)
  have h5: "ok ?r2" by (simp add: ok_def)
  have h6: "json ?r2 = Inr (answering ''Gravity is...'')" by simp
  have h7: "wellFormedText (answering ''Gravity is...'') = Some ''Gravity is...''"
    by (simp add: wellFormedText_def answering_def)
  show ?thesis
    using second_candidate_answers [OF h1 h2 h3 h4 h5 h6 h7]
    by (simp add: configOf_def pageWith_def)
qed

lemma forModels_all_404:
  assumes "\<forall>i < length ms. \<exists>r. fetch env (length (calls w) + i) (requestTo key prompt (ms ! i)) = Resolved r
             \<and> status r = 404"
  shows "forModels env key prompt ms lastError w =
           (Inl (if ms = [] then lastError else Some (''Model '' @ last ms @ '' not found (404).'')),
            w\<lparr>calls := calls w @ map (requestTo key prompt) ms\<rparr>)"
  using assms
proof (induction ms arbitrary: lastError w)
  case Nil
  then show ?case by simp
next
  case (Cons m ms)
  let ?w1 = "w\<lparr>calls := calls w @ [requestTo key prompt m]\<rparr>"
  from Cons.prems have "\<exists>r. fetch env (length (calls w) + 0) (requestTo key prompt ((m # ms) ! 0)) = Resolved r \<and> status r = 404"
    by blast
  then obtain r where r: "fetch env (length (calls w)) (requestTo key prompt m) = Resolved r" "status r = 404"
    by auto
  have first: "iteration env key prompt m w = (Continue (''Model '' @ m @ '' not found (404).''), ?w1)"
    using r by (rule iteration_status_404)
  have "\<forall>i < length ms. \<exists>r. fetch env (length (calls ?w1) + i) (requestTo key prompt (ms ! i)) = Resolved r
             \<and> status r = 404"
  proof (intro allI impI)
    fix i assume "i < length ms"
    then have "Suc i < length (m # ms)" by simp
    with Cons.prems have "\<exists>r. fetch env (length (calls w) + Suc i) (requestTo key prompt ((m # ms) ! Suc i)) = Resolved r \<and> status r = 404"
      by blast
    then show "\<exists>r. fetch env (length (calls ?w1) + i) (requestTo key prompt (ms ! i)) = Resolved r \<and> status r = 404"
      by simp
  qed
  from Cons.IH [OF this, of "Some (''Model '' @ m @ '' not found (404).'')"] first
  show ?case by simp
qed

text \<open>
  Claim C4. If the call for every one of the \<open>N\<close> candidates is answered with status 404,
  \<open>getGeminiResponse\<close> sends exactly the \<open>N\<close> calls, one for each candidate in order,
  and rejects with the reason recorded last, the one for the last candidate. If the loop
  runs off its end with no reason recorded, as it does on an empty list, it rejects with
  the generic message \<open>All models failed\<close>.
\<close>

theorem all_404_exhausts:
  "((\<forall>i < length (MODELS_TO_TRY cfg). \<exists>r.
       fetch env (length (calls w) + i)
         (requestTo (GEMINI_API_KEY cfg) (requestText userMessage) (MODELS_TO_TRY cfg ! i)) = Resolved r
       \<and> status r = 404) \<longrightarrow>
    getGeminiResponse env cfg userMessage w =
      (Inl (Error (if MODELS_TO_TRY cfg = [] then ''All models failed''
                   else ''Model '' @ last (MODELS_TO_TRY cfg) @ '' not found (404).'')),
       w\<lparr>calls := calls w @
            map (requestTo (GEMINI_API_KEY cfg) (requestText userMessage)) (MODELS_TO_TRY cfg)\<rparr>))
   \<and> (forModels env (GEMINI_API_KEY cfg) (requestText userMessage) (MODELS_TO_TRY cfg) None w
         = (Inl None, w') \<longrightarrow>
       getGeminiResponse env cfg userMessage w = (Inl (Error ''All models failed''), w'))"
proof (intro conjI impI)
  assume "\<forall>i < length (MODELS_TO_TRY cfg). \<exists>r.
       fetch env (length (calls w) + i)
         (requestTo (GEMINI_API_KEY cfg) (requestText userMessage) (MODELS_TO_TRY cfg ! i)) = Resolved r
       \<and> status r = 404"
  then show "getGeminiResponse env cfg userMessage w =
      (Inl (Error (if MODELS_TO_TRY cfg = [] then ''All models failed''
                   else ''Model '' @ last (MODELS_TO_TRY cfg) @ '' not found (404).'')),
       w\<lparr>calls := calls w @
            map (requestTo (GEMINI_API_KEY cfg) (requestText userMessage)) (MODELS_TO_TRY cfg)\<rparr>)"
    by (simp add: getGeminiResponse_def forModels_all_404 orAllFailed_def)
next
  assume "forModels env (GEMINI_API_KEY cfg) (requestText userMessage) (MODELS_TO_TRY cfg) None w
            = (Inl None, w')"
  then show "getGeminiResponse env cfg userMessage w = (Inl (Error ''All models failed''), w')"
    by (simp add: getGeminiResponse_def orAllFailed_def)
qed

theorem all_404_exhausts_witness:
  "getGeminiResponse (scripted [withStatus 404 ''Not Found'', withStatus 404 ''Not Found''])
     (configOf [''a'', ''b'']) ''What is gravity?'' (pageWith []) =
   (Inl (Error ''Model b not found (404).''),
    (pageWith [])\<lparr>calls := [requestTo ''KEY'' (requestText ''What is gravity?'') ''a'',
                             requestTo ''KEY'' (requestText ''What is gravity?'') ''b'']\<rparr>)
   \<and> getGeminiResponse (scripted []) (configOf []) ''What is gravity?'' (pageWith []) =
       (Inl (Error ''All models failed''), pageWith [])"
proof -
  let ?env = "scripted [withStatus 404 ''Not Found'', withStatus 404 ''Not Found'']"
  let ?cfg = "configOf [''a'', ''b'']"
  let ?p = "requestText ''What is gravity?''"
  have h: "\<forall>i < length (MODELS_TO_TRY ?cfg). \<exists>r.
             fetch ?env (length (calls (pageWith [])) + i)
               (requestTo (GEMINI_API_KEY ?cfg) ?p (MODELS_TO_TRY ?cfg ! i)) = Resolved r
             \<and> status r = 404"
    by (simp add: configOf_def scripted_def withStatus_def pageWith_def less_Suc_eq)
  have g: "forModels (scripted []) (GEMINI_API_KEY (configOf [])) ?p (MODELS_TO_TRY (configOf []))
             None (pageWith []) = (Inl None, pageWith [])"
    by (simp add: configOf_def)
  show ?thesis
    using all_404_exhausts [of ?cfg ?env "pageWith []" "''What is gravity?''"] h
      all_404_exhausts [of "configOf []" "scripted []" "pageWith []" "''What is gravity?''" "pageWith []"] g
    by (simp add: configOf_def pageWith_def)
qed

section \<open>Server errors\<close>

lemma iteration_other_status:
  assumes "fetch env (length (calls w)) (requestTo key prompt m) = Resolved r"
    and "\<not> ok r" and "status r \<notin> {401, 404, 429, 500}"
  shows "iteration env key prompt m w =
           (Continue (''API Error for model '' @ m @ '': '' @ showNat (status r) @ '' '' @ statusText r),
            w\<lparr>calls := calls w @ [requestTo key prompt m]\<rparr>)"
  by (simp add: iteration_def tryBlock_resolved [OF assms(1)] onResponse_other [OF assms(2,3)])

text \<open>
  Status 500 throws the server-error reason inside the \<open>try\<close> block; the \<open>catch\<close> does
  not find \<open>invalid\<close> or \<open>rate limit\<close> in it, so the loop goes on.
\<close>

lemma iteration_status_500:
  assumes "fetch env (length (calls w)) (requestTo key prompt m) = Resolved r"
    and "status r = 500"
  shows "iteration env key prompt m w =
           (Continue ''Gemini API server error. Please try again later.'',
            w\<lparr>calls := calls w @ [requestTo key prompt m],
              console := console w @ [Warn (''Model '' @ m @ '' failed:'')
                                        ''Gemini API server error. Please try again later.'']\<rparr>)"
proof -
  have "onResponse env m r = Throw (Error ''Gemini API server error. Please try again later.'')"
    using assms(2) by (simp add: onResponse_def ok_def)
  then have "tryBlock env key prompt m w =
               (Throw (Error ''Gemini API server error. Please try again later.''),
                w\<lparr>calls := calls w @ [requestTo key prompt m]\<rparr>)"
    by (simp add: tryBlock_resolved [OF assms(1)])
  from iteration_catch [OF this] not_stopsLoop_server_error show ?thesis
    by (simp add: reasonOf_Error)
qed


text \<open>
  Claim C1 says that a 5xx status fails the whole operation at once. It does not: with the
  first of two candidates answered by status 503 and the second by a well-formed success,
  the operation sends both calls and resolves to the second candidate's text.
\<close>

theorem server_error_counterexample:
  "getGeminiResponse
     (scripted [withStatus 503 ''Service Unavailable'',
                Resolved (Response 200 ''OK'' (Inr (answering ''Gravity is...'')))])
     (configOf [''a'', ''b'']) ''What is gravity?'' (pageWith []) =
   (Inr (JStr ''Gravity is...''),
    (pageWith [])\<lparr>calls := [requestTo ''KEY'' (requestText ''What is gravity?'') ''a'',
                             requestTo ''KEY'' (requestText ''What is gravity?'') ''b'']\<rparr>)"
  by (simp add: getGeminiResponse_def configOf_def scripted_def withStatus_def pageWith_def
        answering_def iteration_def tryBlock_def onResponse_def ok_def readAnswer_def
        member_def element_def)

text \<open>
  Claim C1, amended. Let the loop reach a candidate \<open>m\<close> after passing over the
  candidates \<open>pre\<close>. If the call for \<open>m\<close> is answered with a 5xx status other than 500,
  the reason \<open>API Error for model m: status statusText\<close> is recorded and the loop goes on
  with the candidates after \<open>m\<close>; the operation rejects with that reason when \<open>m\<close> is the
  last candidate.
\<close>

theorem status_5xx_other_than_500_continues:
  assumes "MODELS_TO_TRY cfg = pre @ m # post"
    and "forModels env (GEMINI_API_KEY cfg) (requestText userMessage) pre None w = (Inl lastError, w1)"
    and "fetch env (length (calls w1)) (requestTo (GEMINI_API_KEY cfg) (requestText userMessage) m)
           = Resolved r"
    and "500 < status r" and "status r \<le> 599"
  shows "getGeminiResponse env cfg userMessage w =
           afterLoop (forModels env (GEMINI_API_KEY cfg) (requestText userMessage) post
             (Some (''API Error for model '' @ m @ '': '' @ showNat (status r) @ '' '' @ statusText r))
             (w1\<lparr>calls := calls w1 @ [requestTo (GEMINI_API_KEY cfg) (requestText userMessage) m]\<rparr>))
         \<and> (post = [] \<longrightarrow>
              getGeminiResponse env cfg userMessage w =
                (Inl (Error (''API Error for model '' @ m @ '': '' @ showNat (status r) @ '' ''
                             @ statusText r)),
                 w1\<lparr>calls := calls w1 @ [requestTo (GEMINI_API_KEY cfg) (requestText userMessage) m]\<rparr>))"
proof -
  let ?key = "GEMINI_API_KEY cfg" and ?p = "requestText userMessage"
  let ?e = "''API Error for model '' @ m @ '': '' @ showNat (status r) @ '' '' @ statusText r"
  let ?w2 = "w1\<lparr>calls := calls w1 @ [requestTo ?key ?p m]\<rparr>"
  have "\<not> ok r" and "status r \<notin> {401, 404, 429, 500}"
    using assms(4,5) by (auto simp: ok_def)
  from iteration_other_status [OF assms(3) this]
  have it: "iteration env ?key ?p m w1 = (Continue ?e, ?w2)" .
  have main: "getGeminiResponse env cfg userMessage w =
                afterLoop (forModels env ?key ?p post (Some ?e) ?w2)"
    unfolding getGeminiResponse_def assms(1) forModels_reach [OF assms(2), of m post] it
    by simp
  have "afterLoop (forModels env ?key ?p [] (Some ?e) ?w2) = (Inl (Error ?e), ?w2)"
    by (simp add: orAllFailed_def)
  with main show ?thesis by auto
qed

theorem status_5xx_other_than_500_continues_witness:
  "getGeminiResponse
     (scripted [withStatus 404 ''Not Found'', withStatus 503 ''Service Unavailable''])
     (configOf [''a'', ''b'']) ''What is gravity?'' (pageWith []) =
   (Inl (Error ''API Error for model b: 503 Service Unavailable''),
    (pageWith [])\<lparr>calls := [requestTo ''KEY'' (requestText ''What is gravity?'') ''a'',
                             requestTo ''KEY'' (requestText ''What is gravity?'') ''b'']\<rparr>)"
proof -
  let ?env = "scripted [withStatus 404 ''Not Found'', withStatus 503 ''Service Unavailable'']"
  let ?cfg = "configOf [''a'', ''b'']"
  let ?p = "requestText ''What is gravity?''"
  let ?w1 = "(pageWith [])\<lparr>calls := [requestTo ''KEY'' ?p ''a'']\<rparr>"
  let ?r = "Response 503 ''Service Unavailable'' (Inr (JObj []))"
  have h1: "MODELS_TO_TRY ?cfg = [''a''] @ ''b'' # []"
    by (simp add: configOf_def)
  have h2: "forModels ?env (GEMINI_API_KEY ?cfg) ?p [''a''] None (pageWith []) =
              (Inl (Some ''Model a not found (404).''), ?w1)"
    by (simp add: configOf_def scripted_def withStatus_def pageWith_def iteration_def
          tryBlock_def onResponse_def ok_def)
  have h3: "fetch ?env (length (calls ?w1)) (requestTo (GEMINI_API_KEY ?cfg) ?p ''b'') = Resolved ?r"
    by (simp add: scripted_def withStatus_def)
  have h4: "500 < status ?r" and h5: "status ?r \<le> 599"
    by simp_all
  have n: "showNat 503 = ''503''"
    by code_simp
  show ?thesis
    using status_5xx_other_than_500_continues [OF h1 h2 h3 h4 h5] n
    by (simp add: pageWith_def configOf_def orAllFailed_def)
qed

section \<open>Errors caught inside the loop\<close>

text \<open>
  Claim C9. Let the loop reach a candidate \<open>m\<close> after passing over the candidates
  \<open>pre\<close>, and let the attempt for \<open>m\<close> raise the error \<open>err\<close>, whose reason is
  \<open>err.message || String(err)\<close>. If the reason in lower case contains \<open>invalid\<close> or
  \<open>rate limit\<close> as a substring, \<open>getGeminiResponse\<close> rejects at once with that reason.
  Otherwise the reason is recorded as the last error, a warning is written to the console
  and the loop goes on with the candidates after \<open>m\<close>.
\<close>

theorem caught_error_stops_or_continues:
  assumes "MODELS_TO_TRY cfg = pre @ m # post"
    and "forModels env (GEMINI_API_KEY cfg) (requestText userMessage) pre None w = (Inl lastError, w1)"
    and "tryBlock env (GEMINI_API_KEY cfg) (requestText userMessage) m w1 = (Throw err, w2)"
  shows "getGeminiResponse env cfg userMessage w =
           (if sublist ''invalid'' (toLowerCase (reasonOf err))
               \<or> sublist ''rate limit'' (toLowerCase (reasonOf err))
            then (Inl (Error (reasonOf err)), w2)
            else afterLoop (forModels env (GEMINI_API_KEY cfg) (requestText userMessage) post
                   (Some (reasonOf err))
                   (w2\<lparr>console := console w2 @ [Warn (''Model '' @ m @ '' failed:'') (reasonOf err)]\<rparr>)))"
  using iteration_catch [OF assms(3)] forModels_reach [OF assms(2), of m post]
  by (simp add: getGeminiResponse_def assms(1) stopsLoop_sublist)


theorem caught_error_stops_or_continues_witness:
  "getGeminiResponse
     (scripted [Rejected (TypeError ''Failed to fetch''), Rejected (TypeError ''Invalid URL'')])
     (configOf [''a'', ''b'', ''c'']) ''What is gravity?'' (pageWith []) =
   (Inl (Error ''Invalid URL''),
    (pageWith [])\<lparr>calls := [requestTo ''KEY'' (requestText ''What is gravity?'') ''a'',
                             requestTo ''KEY'' (requestText ''What is gravity?'') ''b''],
                   console := [Warn ''Model a failed:'' ''Failed to fetch'']\<rparr>)"
proof -
  let ?env = "scripted [Rejected (TypeError ''Failed to fetch''), Rejected (TypeError ''Invalid URL'')]"
  let ?cfg = "configOf [''a'', ''b'', ''c'']"
  let ?p = "requestText ''What is gravity?''"
  let ?w0 = "(pageWith [])\<lparr>calls := [requestTo ''KEY'' ?p ''a'']\<rparr>"
  let ?w1 = "?w0\<lparr>console := [Warn ''Model a failed:'' ''Failed to fetch'']\<rparr>"
  let ?w2 = "?w1\<lparr>calls := [requestTo ''KEY'' ?p ''a'', requestTo ''KEY'' ?p ''b'']\<rparr>"
  have s1: "\<not> stopsLoop ''Failed to fetch''" by code_simp
  have s2: "sublist ''invalid'' (toLowerCase ''Invalid URL'')"
    unfolding includesStr_sublist [symmetric] by code_simp
  have k: "GEMINI_API_KEY ?cfg = ''KEY''" by (simp add: configOf_def)
  have t0: "tryBlock ?env ''KEY'' ?p ''a'' (pageWith []) = (Throw (TypeError ''Failed to fetch''), ?w0)"
    by (simp add: tryBlock_def scripted_def pageWith_def)
  have h1: "MODELS_TO_TRY ?cfg = [''a''] @ ''b'' # [''c'']"
    by (simp add: configOf_def)
  have h2: "forModels ?env (GEMINI_API_KEY ?cfg) ?p [''a''] None (pageWith []) =
              (Inl (Some ''Failed to fetch''), ?w1)"
    using s1 iteration_catch [OF t0] by (simp add: k reasonOf_Error pageWith_def)
  have h3: "tryBlock ?env (GEMINI_API_KEY ?cfg) ?p ''b'' ?w1 = (Throw (TypeError ''Invalid URL''), ?w2)"
    by (simp add: k tryBlock_def scripted_def pageWith_def)
  show ?thesis
    using caught_error_stops_or_continues [OF h1 h2 h3] s2
    by (simp add: reasonOf_Error pageWith_def)
qed

lemma v8_messages_pass:
  "\<not> stopsLoop (v8TypeErrorMessage JUndefined ''0'')"
  "\<not> stopsLoop (v8TypeErrorMessage JUndefined ''text'')"
  by code_simp+

lemma readAnswer_missing_parts:
  assumes "getProp data ''candidates'' = Some candidates" and "truthy candidates"
    and "getIndex candidates 0 = Some candidate" and "truthy candidate"
    and "getProp candidate ''content'' = Some content" and "truthy content"
    and "getProp content ''parts'' = Some parts"
    and "parts = JUndefined \<or> parts = JArr []"
  shows "readAnswer env m data =
           Throw (TypeError (typeErrorMessage env JUndefined
                    (if parts = JUndefined then ''0'' else ''text'')))"
  using assms
  by (auto simp: readAnswer_def member_def element_def showNat.simps)

text \<open>
  Claim C10. Let the call for a candidate \<open>m\<close>, at any position, be answered with a
  success status and a body in which \<open>candidates[0].content\<close> is present, so that the
  guard of line 177 passes, and \<open>content.parts\<close> is absent or an empty array. Reading
  \<open>parts[0].text\<close> then raises a \<open>TypeError\<close>: for reading \<open>0\<close> of \<open>undefined\<close> when
  \<open>parts\<close> is absent, for reading \<open>text\<close> of \<open>undefined\<close> when it is empty. With the
  message V8 gives that error, the message contains neither \<open>invalid\<close> nor
  \<open>rate limit\<close>, and the operation does not stop at \<open>m\<close>: the message is recorded as the
  reason of \<open>m\<close>, a warning is written and the loop goes on with the candidates after
  \<open>m\<close>.
\<close>

theorem missing_parts_continues:
  assumes "MODELS_TO_TRY cfg = pre @ m # post"
    and "forModels env (GEMINI_API_KEY cfg) (requestText userMessage) pre None w = (Inl lastError, w1)"
    and "fetch env (length (calls w1)) (requestTo (GEMINI_API_KEY cfg) (requestText userMessage) m)
           = Resolved r"
    and "ok r"
    and "json r = Inr data"
    and "getProp data ''candidates'' = Some candidates" and "truthy candidates"
    and "getIndex candidates 0 = Some candidate" and "truthy candidate"
    and "getProp candidate ''content'' = Some content" and "truthy content"
    and "getProp content ''parts'' = Some parts"
    and "parts = JUndefined \<or> parts = JArr []"
    and "typeErrorMessage env = v8TypeErrorMessage"
    and "e = v8TypeErrorMessage JUndefined (if parts = JUndefined then ''0'' else ''text'')"
  shows "\<not> sublist ''invalid'' (toLowerCase e)
         \<and> \<not> sublist ''rate limit'' (toLowerCase e)
         \<and> getGeminiResponse env cfg userMessage w =
             afterLoop (forModels env (GEMINI_API_KEY cfg) (requestText userMessage) post (Some e)
               (w1\<lparr>calls := calls w1 @ [requestTo (GEMINI_API_KEY cfg) (requestText userMessage) m],
                   console := console w1 @ [Warn (''Model '' @ m @ '' failed:'') e]\<rparr>))"
proof -
  let ?key = "GEMINI_API_KEY cfg" and ?p = "requestText userMessage"
  let ?w2 = "w1\<lparr>calls := calls w1 @ [requestTo ?key ?p m]\<rparr>"
  have pass: "\<not> stopsLoop e"
    using assms(13) v8_messages_pass by (auto simp: assms(15))
  have ne: "e \<noteq> []"
    by (simp add: assms(15) v8TypeErrorMessage_def)
  have "readAnswer env m data = Throw (TypeError e)"
    using readAnswer_missing_parts [OF assms(6-13), of env m]
    by (simp add: assms(14,15))
  then have "onResponse env m r = Throw (TypeError e)"
    using assms(4,5) by (simp add: onResponse_def)
  then have "tryBlock env ?key ?p m w1 = (Throw (TypeError e), ?w2)"
    by (simp add: tryBlock_resolved [OF assms(3)])
  from iteration_catch [OF this] pass ne
  have it: "iteration env ?key ?p m w1 =
              (Continue e, ?w2\<lparr>console := console ?w2 @ [Warn (''Model '' @ m @ '' failed:'') e]\<rparr>)"
    by (simp add: reasonOf_Error)
  have "getGeminiResponse env cfg userMessage w =
          afterLoop (forModels env ?key ?p post (Some e)
            (w1\<lparr>calls := calls w1 @ [requestTo ?key ?p m],
                console := console w1 @ [Warn (''Model '' @ m @ '' failed:'') e]\<rparr>))"
    unfolding getGeminiResponse_def assms(1) forModels_reach [OF assms(2), of m post] it
    by simp
  with pass show ?thesis
    by (simp add: stopsLoop_sublist)
qed

theorem missing_parts_continues_witness:
  "getGeminiResponse
     (scripted [Resolved (Response 200 ''OK''
                  (Inr (JObj [(''candidates'', JArr [JObj [(''content'', JObj [(''parts'', JArr [])])]])]))),
                Resolved (Response 200 ''OK'' (Inr (answering ''Gravity is...'')))])
     (configOf [''a'', ''b'']) ''What is gravity?'' (pageWith []) =
   (Inr (JStr ''Gravity is...''),
    (pageWith [])\<lparr>calls := [requestTo ''KEY'' (requestText ''What is gravity?'') ''a'',
                             requestTo ''KEY'' (requestText ''What is gravity?'') ''b''],
                   console := [Warn ''Model a failed:'' (v8TypeErrorMessage JUndefined ''text'')]\<rparr>)"
proof -
  let ?content = "JObj [(''parts'', JArr [])]"
  let ?candidate = "JObj [(''content'', ?content)]"
  let ?data = "JObj [(''candidates'', JArr [?candidate])]"
  let ?r = "Response 200 ''OK'' (Inr ?data)"
  let ?env = "scripted [Resolved ?r, Resolved (Response 200 ''OK'' (Inr (answering ''Gravity is...'')))]"
  let ?cfg = "configOf [''a'', ''b'']"
  let ?p = "requestText ''What is gravity?''"
  let ?e = "v8TypeErrorMessage JUndefined ''text''"
  have h1: "MODELS_TO_TRY ?cfg = [] @ ''a'' # [''b'']"
    by (simp add: configOf_def)
  have h2: "forModels ?env (GEMINI_API_KEY ?cfg) ?p [] None (pageWith []) = (Inl None, pageWith [])"
    by simp
  have h3: "fetch ?env (length (calls (pageWith []))) (requestTo (GEMINI_API_KEY ?cfg) ?p ''a'') = Resolved ?r"
    by (simp add: scripted_def pageWith_def)
  have h4: "ok ?r" by (simp add: ok_def)
  have h5: "json ?r = Inr ?data" by simp
  have h6: "getProp ?data ''candidates'' = Some (JArr [?candidate])" by simp
  have h7: "truthy (JArr [?candidate])" by simp
  have h8: "getIndex (JArr [?candidate]) 0 = Some ?candidate" by simp
  have h9: "truthy ?candidate" by simp
  have h10: "getProp ?candidate ''content'' = Some ?content" by simp
  have h11: "truthy ?content" by simp
  have h12: "getProp ?content ''parts'' = Some (JArr [])" by simp
  have h13: "JArr [] = JUndefined \<or> JArr [] = JArr []" by simp
  have h14: "typeErrorMessage ?env = v8TypeErrorMessage" by (simp add: scripted_def)
  have h15: "?e = v8TypeErrorMessage JUndefined (if JArr [] = JUndefined then ''0'' else ''text'')"
    by simp
  have second: "iteration ?env ''KEY'' ?p ''b''
       ((pageWith [])\<lparr>calls := [requestTo ''KEY'' ?p ''a''], console := [Warn ''Model a failed:'' ?e]\<rparr>)
     = (Return (JStr ''Gravity is...''),
        (pageWith [])\<lparr>calls := [requestTo ''KEY'' ?p ''a'', requestTo ''KEY'' ?p ''b''],
                      console := [Warn ''Model a failed:'' ?e]\<rparr>)"
    by (simp add: scripted_def pageWith_def answering_def iteration_def tryBlock_def
          onResponse_def ok_def readAnswer_def member_def element_def)
  show ?thesis
    using missing_parts_continues [OF h1 h2 h3 h4 h5 h6 h7 h8 h9 h10 h11 h12 h13 h14 h15] second
    by (simp add: configOf_def pageWith_def)
qed

section \<open>Facts about the conversation view\<close>

lemma dropWhile_all_iff:
  "(\<forall>x \<in> set (dropWhile P xs). P x) \<longleftrightarrow> (\<forall>x \<in> set xs. P x)"
proof
  assume a: "\<forall>x \<in> set (dropWhile P xs). P x"
  have "dropWhile P xs = []"
  proof (rule ccontr)
    assume ne: "dropWhile P xs \<noteq> []"
    then have "\<not> P (hd (dropWhile P xs))" by (rule hd_dropWhile)
    moreover from ne have "hd (dropWhile P xs) \<in> set (dropWhile P xs)" by simp
    ultimately show False using a by blast
  qed
  then show "\<forall>x \<in> set xs. P x" by (simp add: dropWhile_eq_Nil_conv)
next
  assume "\<forall>x \<in> set xs. P x"
  then show "\<forall>x \<in> set (dropWhile P xs). P x"
    by (meson set_dropWhileD)
qed

lemma trim_empty_iff: "trim s = [] \<longleftrightarrow> (\<forall>c \<in> set s. isWhiteSpace c)"
  by (simp add: trim_def dropWhile_eq_Nil_conv dropWhile_all_iff)

text \<open>\<open>getGeminiResponse\<close> touches the call log and the console, and no widget.\<close>

lemma iteration_frame:
  "\<exists>c k. snd (iteration env key prompt m w) = w\<lparr>calls := c, console := k\<rparr>"
proof -
  obtain r w' where t: "tryBlock env key prompt m w = (r, w')"
    by (cases "tryBlock env key prompt m w")
  with tryBlock_world [of env key prompt m w]
  have w': "w' = w\<lparr>calls := calls w @ [requestTo key prompt m]\<rparr>" by simp
  have "snd (iteration env key prompt m w) = w\<lparr>calls := calls w', console := console w\<rparr>
        \<or> snd (iteration env key prompt m w) =
            w\<lparr>calls := calls w', console := console w @ [Warn (''Model '' @ m @ '' failed:'')
                   (case r of Throw err \<Rightarrow> reasonOf err | _ \<Rightarrow> [])]\<rparr>"
    using t w' by (cases r) (simp_all add: iteration_def Let_def)
  then show ?thesis by blast
qed

lemma forModels_frame:
  "\<exists>c k. snd (forModels env key prompt ms lastError w) = w\<lparr>calls := c, console := k\<rparr>"
proof (induction ms arbitrary: lastError w)
  case Nil
  have "w = w\<lparr>calls := calls w, console := console w\<rparr>" by simp
  then show ?case by (metis forModels.simps(1) snd_conv)
next
  case (Cons m ms)
  obtain r w1 where it: "iteration env key prompt m w = (r, w1)"
    by (cases "iteration env key prompt m w")
  from iteration_frame [of env key prompt m w] it
  obtain c1 k1 where w1: "w1 = w\<lparr>calls := c1, console := k1\<rparr>" by auto
  show ?case
  proof (cases r)
    case (Continue e)
    from Cons.IH [of "Some e" w1]
    obtain c k where "snd (forModels env key prompt ms (Some e) w1) = w1\<lparr>calls := c, console := k\<rparr>"
      by blast
    then have "snd (forModels env key prompt (m # ms) lastError w) = w\<lparr>calls := c, console := k\<rparr>"
      using it Continue w1 by simp
    then show ?thesis by blast
  next
    case (Return v)
    then have "snd (forModels env key prompt (m # ms) lastError w) = w\<lparr>calls := c1, console := k1\<rparr>"
      using it w1 by simp
    then show ?thesis by blast
  next
    case (Throw err)
    then have "snd (forModels env key prompt (m # ms) lastError w) = w\<lparr>calls := c1, console := k1\<rparr>"
      using it w1 by simp
    then show ?thesis by blast
  qed
qed

lemma afterLoop_snd: "snd (afterLoop x) = snd x"
  by (cases x rule: afterLoop.cases) simp_all

lemma getGeminiResponse_frame:
  "\<exists>c k. snd (getGeminiResponse env cfg userMessage w) = w\<lparr>calls := c, console := k\<rparr>"
  using forModels_frame by (simp add: getGeminiResponse_def afterLoop_snd)

lemma exchange_frame:
  "sendBtn_disabled (exchange env cfg msg w) = sendBtn_disabled w
   \<and> userInput_focus (exchange env cfg msg w) = userInput_focus w
   \<and> userInput_value (exchange env cfg msg w) = userInput_value w"
proof -
  obtain r w' where g: "getGeminiResponse env cfg msg w = (r, w')"
    by (cases "getGeminiResponse env cfg msg w")
  with getGeminiResponse_frame [of env cfg msg w]
  obtain c k where "w' = w\<lparr>calls := c, console := k\<rparr>" by auto
  then show ?thesis
    using g
    by (cases r)
       (auto simp: exchange_def onError_def Let_def hideLoading_def showError_def
          displayAIMessage_def scrollToBottom_def split: sum.splits)
qed

lemma sendMessage_valid:
  assumes "trim (userInput_value w) \<noteq> []" and "GEMINI_API_KEY cfg \<noteq> ''YOUR_API_KEY_HERE''"
  shows "sendMessage env cfg w =
           (exchange env cfg (trim (userInput_value w)) (beforeCall (trim (userInput_value w)) w))
             \<lparr>sendBtn_disabled := False,
              userInput_focus :=
                Suc (userInput_focus (exchange env cfg (trim (userInput_value w))
                                        (beforeCall (trim (userInput_value w)) w)))\<rparr>"
  using assms by (simp add: sendMessage_def Let_def)

lemma beforeCall_fields:
  "sendBtn_disabled (beforeCall msg w) = True"
  "userInput_focus (beforeCall msg w) = userInput_focus w"
  "calls (beforeCall msg w) = calls w"
  by (simp_all add: beforeCall_def showLoading_def displayUserMessage_def clearError_def)

lemma trim_example: "trim ''What is gravity?'' = ''What is gravity?''"
  by (simp add: trim_def isWhiteSpace_def)

section \<open>Submitting a message\<close>

text \<open>
  Claim C5. If the input field holds only white space, or nothing, \<open>sendMessage\<close> shows
  the error \<open>Please enter a message\<close> in the banner and changes nothing else: no call is
  sent and the input field keeps its content.
\<close>

theorem blank_input_rejected:
  assumes "\<forall>c \<in> set (userInput_value w). isWhiteSpace c"
  shows "sendMessage env cfg w =
           w\<lparr>errorMessage_textContent := ''Please enter a message'', errorMessage_active := True\<rparr>
         \<and> calls (sendMessage env cfg w) = calls w
         \<and> userInput_value (sendMessage env cfg w) = userInput_value w"
  using assms by (simp add: sendMessage_def showError_def trim_empty_iff)

theorem blank_input_rejected_witness:
  "sendMessage (scripted []) (configOf [''a'']) (pageWith [CHR '' '', CHR 0x09, newline]) =
     (pageWith [CHR '' '', CHR 0x09, newline])
       \<lparr>errorMessage_textContent := ''Please enter a message'', errorMessage_active := True\<rparr>
   \<and> calls (sendMessage (scripted []) (configOf [''a'']) (pageWith [CHR '' '', CHR 0x09, newline])) = []
   \<and> userInput_value (sendMessage (scripted []) (configOf [''a''])
        (pageWith [CHR '' '', CHR 0x09, newline])) = [CHR '' '', CHR 0x09, newline]"
proof -
  have h: "\<forall>c \<in> set (userInput_value (pageWith [CHR '' '', CHR 0x09, newline])). isWhiteSpace c"
    by (simp add: pageWith_def isWhiteSpace_def newline_def)
  show ?thesis
    using blank_input_rejected [OF h, of "scripted []" "configOf [''a'']"]
    by (simp add: pageWith_def)
qed

text \<open>
  Claim C6. Let a submission pass both guards of \<open>sendMessage\<close>, so that it goes on to
  \<open>getGeminiResponse\<close>. The submit button is disabled before the call. Whatever the call
  does, resolve or reject, afterwards the button is enabled and the input field has been
  given the focus exactly once more than before.
\<close>

theorem submit_released_once:
  assumes "trim (userInput_value w) \<noteq> []" and "GEMINI_API_KEY cfg \<noteq> ''YOUR_API_KEY_HERE''"
  shows "sendBtn_disabled (beforeCall (trim (userInput_value w)) w)
         \<and> \<not> sendBtn_disabled (sendMessage env cfg w)
         \<and> userInput_focus (sendMessage env cfg w) = Suc (userInput_focus w)"
  using exchange_frame [of env cfg "trim (userInput_value w)" "beforeCall (trim (userInput_value w)) w"]
  by (simp add: sendMessage_valid [OF assms] beforeCall_fields)

theorem submit_released_once_witness:
  "\<not> sendBtn_disabled
       (sendMessage (scripted [withStatus 404 ''Not Found'',
                       Resolved (Response 200 ''OK'' (Inr (answering ''Gravity is...'')))])
          (configOf [''a'', ''b'']) (pageWith ''What is gravity?''))
   \<and> userInput_focus
       (sendMessage (scripted [withStatus 404 ''Not Found'',
                       Resolved (Response 200 ''OK'' (Inr (answering ''Gravity is...'')))])
          (configOf [''a'', ''b'']) (pageWith ''What is gravity?'')) = 2
   \<and> \<not> sendBtn_disabled
       (sendMessage (scripted [withStatus 401 ''Unauthorized''])
          (configOf [''a'', ''b'']) (pageWith ''What is gravity?''))
   \<and> userInput_focus
       (sendMessage (scripted [withStatus 401 ''Unauthorized''])
          (configOf [''a'', ''b'']) (pageWith ''What is gravity?'')) = 2"
proof -
  let ?cfg = "configOf [''a'', ''b'']"
  let ?w = "pageWith ''What is gravity?''"
  have h1: "trim (userInput_value ?w) \<noteq> []"
    by (simp add: pageWith_def trim_example)
  have h2: "GEMINI_API_KEY ?cfg \<noteq> ''YOUR_API_KEY_HERE''"
    by (simp add: configOf_def)
  have f: "userInput_focus ?w = 1"
    by (simp add: pageWith_def)
  show ?thesis
    using submit_released_once [OF h1 h2, of "scripted [withStatus 404 ''Not Found'',
                       Resolved (Response 200 ''OK'' (Inr (answering ''Gravity is...'')))]"]
      submit_released_once [OF h1 h2, of "scripted [withStatus 401 ''Unauthorized'']"] f
    by simp
qed

section \<open>The error banner\<close>

text \<open>
  Claim C8 says that the banner shows the reason of a failed call with nothing added. It
  does not: with the only candidate answered by status 401 the call rejects with the
  invalid-key reason, and the banner shows that reason behind the prefix \<open>Error: \<close>.
\<close>

theorem error_banner_counterexample:
  "fst (getGeminiResponse (scripted [withStatus 401 ''Unauthorized'']) (configOf [''a''])
          ''What is gravity?'' (beforeCall ''What is gravity?'' (pageWith ''What is gravity?''))) =
     Inl (Error ''Invalid or missing API key. Check your Gemini API key.'')
   \<and> errorMessage_textContent
        (sendMessage (scripted [withStatus 401 ''Unauthorized'']) (configOf [''a''])
           (pageWith ''What is gravity?'')) =
       ''Error: Invalid or missing API key. Check your Gemini API key.''
   \<and> errorMessage_textContent
        (sendMessage (scripted [withStatus 401 ''Unauthorized'']) (configOf [''a''])
           (pageWith ''What is gravity?'')) \<noteq>
       ''Invalid or missing API key. Check your Gemini API key.''"
  by code_simp

text \<open>
  Claim C8, amended. Whenever \<open>getGeminiResponse\<close> rejects, whatever the reason, the banner
  is shown and its text is \<open>Error: \<close> followed by the reason, unchanged.
\<close>

theorem error_banner_text:
  assumes "trim (userInput_value w) \<noteq> []" and "GEMINI_API_KEY cfg \<noteq> ''YOUR_API_KEY_HERE''"
    and "fst (getGeminiResponse env cfg (trim (userInput_value w))
                (beforeCall (trim (userInput_value w)) w)) = Inl err"
  shows "errorMessage_textContent (sendMessage env cfg w) = ''Error: '' @ message err
         \<and> errorMessage_active (sendMessage env cfg w)"
proof -
  let ?msg = "trim (userInput_value w)"
  obtain w' where "getGeminiResponse env cfg ?msg (beforeCall ?msg w) = (Inl err, w')"
    using assms(3) by (cases "getGeminiResponse env cfg ?msg (beforeCall ?msg w)") auto
  then show ?thesis
    by (simp add: sendMessage_valid [OF assms(1,2)] exchange_def onError_def Let_def showError_def)
qed

theorem error_banner_text_witness:
  "errorMessage_textContent
     (sendMessage (scripted [withStatus 404 ''Not Found'', withStatus 429 ''Too Many Requests''])
        (configOf [''a'', ''b'']) (pageWith ''What is gravity?'')) =
     ''Error: Rate limit exceeded. Please wait a moment and try again.''
   \<and> errorMessage_active
        (sendMessage (scripted [withStatus 404 ''Not Found'', withStatus 429 ''Too Many Requests''])
           (configOf [''a'', ''b'']) (pageWith ''What is gravity?''))"
proof -
  let ?env = "scripted [withStatus 404 ''Not Found'', withStatus 429 ''Too Many Requests'']"
  let ?cfg = "configOf [''a'', ''b'']"
  let ?w = "pageWith ''What is gravity?''"
  have t: "trim (userInput_value ?w) = ''What is gravity?''"
    by (simp add: pageWith_def trim_example)
  have h1: "trim (userInput_value ?w) \<noteq> []"
    by (simp add: t)
  have h2: "GEMINI_API_KEY ?cfg \<noteq> ''YOUR_API_KEY_HERE''"
    by (simp add: configOf_def)
  have h3: "fst (getGeminiResponse ?env ?cfg (trim (userInput_value ?w))
                   (beforeCall (trim (userInput_value ?w)) ?w)) =
              Inl (Error ''Rate limit exceeded. Please wait a moment and try again.'')"
    unfolding t by code_simp
  show ?thesis
    using error_banner_text [OF h1 h2 h3] by simp
qed

section \<open>Rendering messages\<close>

lemma escapeChar_no_angle: "CHR ''<'' \<notin> set (escapeChar c) \<and> CHR ''>'' \<notin> set (escapeChar c)"
  by (simp add: escapeChar_def)

lemma unescapeHtml_escapeChar: "unescapeHtml (escapeChar c @ rest) = c # unescapeHtml rest"
  by (simp add: escapeChar_def)

lemma unescapeHtml_escape: "unescapeHtml (escapeText s) = s"
  unfolding escapeText_def
  by (induction s) (simp_all add: unescapeHtml_escapeChar del: unescapeHtml.simps(2))

lemma escapeText_no_angle: "CHR ''<'' \<notin> set (escapeText s) \<and> CHR ''>'' \<notin> set (escapeText s)"
  by (simp add: escapeText_def escapeChar_no_angle)

lemma replaceNewlines_append:
  "replaceNewlines (a @ b) = replaceNewlines a @ replaceNewlines b"
  by (simp add: replaceNewlines_def)

lemma replaceNewlines_escapeChar:
  "replaceNewlines (escapeChar c) = (if c = newline then ''<br>'' else escapeChar c)"
  by (simp add: replaceNewlines_def escapeChar_def newline_def)

lemma replaceNewlines_escape:
  "replaceNewlines (escapeText s) =
     concat (map (\<lambda>c. if c = newline then ''<br>'' else escapeChar c) s)"
  unfolding escapeText_def
proof (induction s)
  case Nil
  show ?case by (simp add: replaceNewlines_def)
next
  case (Cons c s)
  then show ?case by (simp add: replaceNewlines_append replaceNewlines_escapeChar)
qed

lemma escapeHtml_string: "escapeHtml env (JStr s) = Inr (escapeText s)"
  by (simp add: escapeHtml_def textContentOf_def)

text \<open>
  Claim C7. Both \<open>displayUserMessage\<close> and \<open>displayAIMessage\<close> put the message through
  \<open>escapeHtml\<close> before it becomes markup; on a string \<open>escapeHtml\<close> does not throw. The
  escaped text is the message with each of \<open>&\<close>, \<open><\<close>, \<open>>\<close> and the no-break space
  replaced by its character reference: it holds no \<open><\<close> and no \<open>>\<close>, so nothing in it
  opens or closes a tag, and decoding the references gives the message back. In
  \<open>displayAIMessage\<close> every newline of the message becomes \<open><br>\<close>, and every other
  character its escaped form.
\<close>

theorem messages_rendered_escaped:
  "escapeHtml env (JStr msg) = Inr (escapeText msg)
   \<and> escapeText msg = concat (map escapeChar msg)
   \<and> innerHTML (last (chatContainer (displayUserMessage msg w))) = ''<p>'' @ escapeText msg @ ''</p>''
   \<and> displayAIMessage env (JStr msg) w =
       Inr (w\<lparr>chatContainer := chatContainer w @
              [\<lparr>className = ''message ai-message'',
                innerHTML = ''<p>'' @ replaceNewlines (escapeText msg) @ ''</p>''\<rparr>]\<rparr>)
   \<and> CHR ''<'' \<notin> set (escapeText msg)
   \<and> CHR ''>'' \<notin> set (escapeText msg)
   \<and> unescapeHtml (escapeText msg) = msg
   \<and> replaceNewlines (escapeText msg) =
       concat (map (\<lambda>c. if c = newline then ''<br>'' else escapeChar c) msg)"
  using escapeText_no_angle [of msg]
  by (simp add: escapeHtml_string displayUserMessage_def displayAIMessage_def
        unescapeHtml_escape replaceNewlines_escape)
    (simp add: escapeText_def)

theorem messages_rendered_escaped_witness:
  "displayAIMessage (scripted []) (JStr (''<script>a&b</script>'' @ [newline] @ ''c'')) (pageWith []) =
     Inr ((pageWith [])\<lparr>chatContainer :=
            [\<lparr>className = ''message ai-message'',
              innerHTML = ''<p>&lt;script&gt;a&amp;b&lt;/script&gt;<br>c</p>''\<rparr>]\<rparr>)"
  using messages_rendered_escaped
          [of "scripted []" "''<script>a&b</script>'' @ [newline] @ ''c''" "pageWith []"]
  by (simp add: escapeChar_def newline_def pageWith_def replaceNewlines_def)

text \<open>
  When the answer cannot be converted to a string, \<open>displayAIMessage\<close> throws inside the
  \<open>try\<close> of \<open>sendMessage\<close>: the banner shows the error, and no assistant message is added.
\<close>

lemma exchange_unconvertible:
  assumes "getGeminiResponse env cfg msg w = (Inr v, w')"
    and "escapeHtml env v = Inl err"
  shows "exchange env cfg msg w = onError err (hideLoading w')"
  using assms by (simp add: exchange_def displayAIMessage_def)

end
